theory Spec2Isabelle
  imports Main "HOL-Library.Word"
begin

unbundle bit_operations_syntax

section \<open>Errors\<close>

text \<open>
  Every \<open>throw new Error(...)\<close> of the sources is a constructor here; the comment gives
  the message of the source.
\<close>

datatype error =
    TooFewShares          \<comment> \<open>Need at least 2 shares to reconstruct / to sign\<close>
  | DuplicateIndex        \<comment> \<open>Duplicate share indices detected\<close>
  | SyntaxError           \<comment> \<open>BigInt() on a string that is no hexadecimal literal\<close>
  | ThresholdTooSmall     \<comment> \<open>Threshold must be at least 2\<close>
  | TotalBelowThreshold   \<comment> \<open>Total shares must be >= threshold / Threshold cannot exceed total shares\<close>
  | TooManyShares         \<comment> \<open>Maximum 255 shares supported\<close>
  | SecretTooLarge        \<comment> \<open>Secret too large for prime field\<close>
  | RequestNotFound       \<comment> \<open>Recovery request not found\<close>
  | InvalidState          \<comment> \<open>Invalid request status: ... Expected: ...\<close>
  | DuplicateGuardian     \<comment> \<open>Guardian has already approved this request\<close>
  | OwnerSharesTooSmall   \<comment> \<open>Owner must have at least 1 share\<close>
  | NotEnoughGuardianShares \<comment> \<open>Not enough guardian shares for recovery without owner\<close>
  | StateNotLoaded        \<comment> \<open>Wallet state not loaded\<close>
  | WrongWallet           \<comment> \<open>Share does not belong to this wallet\<close>
  | NotEnoughShares       \<comment> \<open>Need k shares, have m / Need at least k shares, got m\<close>
  | MixedKeys             \<comment> \<open>All shares must belong to the same key\<close>
  | BadHashLength         \<comment> \<open>Message hash must be 32 bytes\<close>
  | SignerFailed          \<comment> \<open>an exception of the external secp256k1 signer\<close>
  | BadVersion            \<comment> \<open>Unsupported encryption version\<close>
  | Undecryptable         \<comment> \<open>Decryption failed: invalid password or corrupted data\<close>
  | BadEncoding           \<comment> \<open>atob() on a string that is not base64\<close>
  | GuardianNotFound      \<comment> \<open>Guardian not found\<close>
  | InviteNotFound        \<comment> \<open>Invite not found\<close>
  | InviteExpired         \<comment> \<open>Invite has expired\<close>
  | BadCode               \<comment> \<open>Invalid verification code\<close>

type_synonym byte = "8 word"

section \<open>Shamir secret sharing (packages/mpc/src/shamir.ts)\<close>

subsection \<open>BigInt arithmetic\<close>

text \<open>
  A JavaScript BigInt is an unbounded integer: \<open>int\<close>. Its \<open>%\<close> truncates towards zero
  (the remainder takes the sign of the dividend), unlike \<open>mod\<close> on \<open>int\<close>.
\<close>

definition PRIME :: int where
  "PRIME = 0xFFFFFFFFFFFFFFFFFFFFFFFFFFFFFFFEBAAEDCE6AF48A03BBFD25E8CD0364141"

definition bigint_rem :: "int \<Rightarrow> int \<Rightarrow> int" where
  "bigint_rem a b = sgn a * (\<bar>a\<bar> mod \<bar>b\<bar>)"

text \<open>\<open>randomFieldElement\<close>, on the 32 bytes that \<open>randomBytes(32)\<close> returned.\<close>

definition randomFieldElement :: "byte list \<Rightarrow> int" where
  "randomFieldElement bytes =
     bigint_rem (fold (\<lambda>b value. push_bit 8 value OR uint b) bytes 0) PRIME"

text \<open>
  For comparison, the big-endian value of a byte string as the specification words it:
  the first byte is the most significant one.
\<close>

fun big_endian_value :: "byte list \<Rightarrow> int" where
  "big_endian_value [] = 0"
| "big_endian_value (b # bytes) = uint b * 256 ^ length bytes + big_endian_value bytes"

subsection \<open>Hexadecimal strings\<close>

text \<open>
  Strings of the model are ASCII. \<open>BigInt('0x' + s)\<close> accepts one or more hexadecimal
  digits of either case, followed by white space, and raises SyntaxError on anything else.
\<close>

definition hex_digit_val :: "char \<Rightarrow> int option" where
  "hex_digit_val c =
     (let n = of_char c :: nat in
      if 48 \<le> n \<and> n \<le> 57 then Some (int n - 48)
      else if 97 \<le> n \<and> n \<le> 102 then Some (int n - 87)
      else if 65 \<le> n \<and> n \<le> 70 then Some (int n - 55)
      else None)"

fun parse_hex :: "int \<Rightarrow> string \<Rightarrow> int option" where
  "parse_hex acc [] = Some acc"
| "parse_hex acc (c # cs) =
     (case hex_digit_val c of None \<Rightarrow> None | Some d \<Rightarrow> parse_hex (16 * acc + d) cs)"

definition is_white_space :: "char \<Rightarrow> bool" where
  "is_white_space c = (of_char c \<in> {9, 10, 11, 12, 13, 32 :: nat})"

definition trim_end :: "string \<Rightarrow> string" where
  "trim_end s = rev (dropWhile is_white_space (rev s))"

definition starts_with_0x :: "string \<Rightarrow> bool" where
  "starts_with_0x s = (take 2 s = ''0x'')"

definition hexToBigInt :: "string \<Rightarrow> error + int" where
  "hexToBigInt hex =
     (let cleanHex = (if starts_with_0x hex then drop 2 hex else hex);
          digits = trim_end cleanHex
      in if digits = [] then Inl SyntaxError
         else (case parse_hex 0 digits of None \<Rightarrow> Inl SyntaxError | Some v \<Rightarrow> Inr v))"

definition hex_char :: "nat \<Rightarrow> char" where
  "hex_char d = (if d < 10 then char_of (48 + d) else char_of (87 + d))"

text \<open>\<open>n.toString(16)\<close> of a natural number: no leading zero, \<open>0\<close> is \<open>''0''\<close>.\<close>

function nat_to_hex :: "nat \<Rightarrow> string" where
  "nat_to_hex n = (if n < 16 then [hex_char n] else nat_to_hex (n div 16) @ [hex_char (n mod 16)])"
  by pat_completeness auto
termination
  by (relation "measure id") auto

declare nat_to_hex.simps [simp del]

definition toString16 :: "int \<Rightarrow> string" where
  "toString16 v = (if v < 0 then CHR ''-'' # nat_to_hex (nat (- v)) else nat_to_hex (nat v))"

definition padStart :: "nat \<Rightarrow> char \<Rightarrow> string \<Rightarrow> string" where
  "padStart n c s = replicate (n - length s) c @ s"

definition bigIntToHex :: "int \<Rightarrow> string" where
  "bigIntToHex v = padStart 64 CHR ''0'' (toString16 v)"

subsection \<open>Modular exponentiation and inverse\<close>

function modPow_loop :: "int \<Rightarrow> int \<Rightarrow> int \<Rightarrow> int \<Rightarrow> int" where
  "modPow_loop result base exp m =
     (if exp > 0
      then modPow_loop (if bigint_rem exp 2 = 1 then bigint_rem (result * base) m else result)
             (bigint_rem (base * base) m) (drop_bit 1 exp) m
      else result)"
  by pat_completeness auto
termination
  by (relation "measure (\<lambda>(result, base, exp, m). nat exp)") (auto simp: drop_bit_eq_div)

declare modPow_loop.simps [simp del]

definition modPow :: "int \<Rightarrow> int \<Rightarrow> int \<Rightarrow> int" where
  "modPow base exp m = modPow_loop 1 (bigint_rem base m) exp m"

definition modInverse :: "int \<Rightarrow> int \<Rightarrow> int" where
  "modInverse a m = modPow a (m - 2) m"

subsection \<open>Polynomial evaluation\<close>

definition evaluatePolynomial :: "int list \<Rightarrow> int \<Rightarrow> int" where
  "evaluatePolynomial coefficients x =
     (let (result, xPow) =
            fold (\<lambda>coef (result, xPow).
                    (bigint_rem (result + coef * xPow) PRIME, bigint_rem (xPow * x) PRIME))
                 coefficients (0, 1)
      in bigint_rem (bigint_rem result PRIME + PRIME) PRIME)"

subsection \<open>Split and combine\<close>

record Share =
  share_x :: int
  share_y :: string

text \<open>
  \<open>splitSecret\<close>. The argument \<open>rnd\<close> is the randomness the call consumes: \<open>rnd i\<close> is
  what the call of \<open>randomBytes(32)\<close> for coefficient \<open>i\<close> returned.
\<close>

definition splitSecret :: "(nat \<Rightarrow> byte list) \<Rightarrow> string \<Rightarrow> int \<Rightarrow> int \<Rightarrow> error + Share list" where
  "splitSecret rnd secret totalShares threshold =
     (if threshold < 2 then Inl ThresholdTooSmall
      else if totalShares < threshold then Inl TotalBelowThreshold
      else if totalShares > 255 then Inl TooManyShares
      else (case hexToBigInt secret of
              Inl e \<Rightarrow> Inl e
            | Inr secretBigInt \<Rightarrow>
                if secretBigInt \<ge> PRIME then Inl SecretTooLarge
                else
                  let coefficients =
                        secretBigInt # map (\<lambda>i. randomFieldElement (rnd i)) [1..<nat threshold]
                  in Inr (map (\<lambda>i. \<lparr>share_x = i,
                                      share_y = bigIntToHex (evaluatePolynomial coefficients i)\<rparr>)
                              [1..totalShares])))"

text \<open>The inner loop of \<open>combineShares\<close>: numerator and denominator of \<open>L_i(0)\<close>.\<close>

definition lagrange_num_den :: "Share list \<Rightarrow> nat \<Rightarrow> int \<times> int" where
  "lagrange_num_den shares i =
     fold (\<lambda>j (numerator, denominator).
             if i \<noteq> j
             then (bigint_rem (numerator * (- share_x (shares ! j))) PRIME,
                   bigint_rem (denominator * (share_x (shares ! i) - share_x (shares ! j))) PRIME)
             else (numerator, denominator))
          [0..<length shares] (1, 1)"

definition lagrange_step :: "Share list \<Rightarrow> nat \<Rightarrow> int \<Rightarrow> error + int" where
  "lagrange_step shares i secret =
     (case hexToBigInt (share_y (shares ! i)) of
        Inl e \<Rightarrow> Inl e
      | Inr yi \<Rightarrow>
          let (numerator0, denominator0) = lagrange_num_den shares i;
              numerator = bigint_rem (bigint_rem numerator0 PRIME + PRIME) PRIME;
              denominator = bigint_rem (bigint_rem denominator0 PRIME + PRIME) PRIME;
              lagrangeBasis = bigint_rem (numerator * modInverse denominator PRIME) PRIME
          in Inr (bigint_rem (secret + yi * lagrangeBasis) PRIME))"

fun lagrange_loop :: "Share list \<Rightarrow> nat list \<Rightarrow> int \<Rightarrow> error + int" where
  "lagrange_loop shares [] secret = Inr secret"
| "lagrange_loop shares (i # is) secret =
     (case lagrange_step shares i secret of
        Inl e \<Rightarrow> Inl e
      | Inr secret' \<Rightarrow> lagrange_loop shares is secret')"

definition combineShares :: "Share list \<Rightarrow> error + string" where
  "combineShares shares =
     (if length shares < 2 then Inl TooFewShares
      else if \<not> distinct (map share_x shares) then Inl DuplicateIndex
      else (case lagrange_loop shares [0..<length shares] 0 of
              Inl e \<Rightarrow> Inl e
            | Inr secret \<Rightarrow> Inr (bigIntToHex (bigint_rem (bigint_rem secret PRIME + PRIME) PRIME))))"

section \<open>Recovery coordinator (the RecoveryManager class, src/unnamed/part_000)\<close>

text \<open>
  Record fields carry a prefix, because several interfaces of the sources share field
  names (\<open>id\<close>, \<open>status\<close>, \<open>keyId\<close>, \<open>threshold\<close>, \<open>approvedAt\<close>). Timestamps are
  integer milliseconds. An optional field is an \<open>option\<close>.
\<close>

datatype RecoveryStatus = Pending | Approved | Ready | Executed | Cancelled | Expired

record GuardianApproval =
  a_guardianId :: string
  a_shareIndex :: int
  a_shareValue :: string
  a_approvedAt :: int
  a_signature :: "string option"

record RecoveryRequest =
  r_id :: string
  r_walletAddress :: string
  r_keyId :: string
  r_initiator :: string
  r_reason :: string
  r_status :: RecoveryStatus
  r_threshold :: int
  r_approvals :: "GuardianApproval list"
  r_timelockMs :: int
  r_createdAt :: int
  r_approvedAt :: "int option"
  r_timelockExpiresAt :: "int option"
  r_expiresAt :: int
  r_executedAt :: "int option"
  r_recoveredSecret :: "string option"

text \<open>
  The \<open>requests\<close> map of the class is a JavaScript \<open>Map\<close>, which iterates in insertion
  order: an association list with one entry per key.
\<close>

type_synonym requests = "(string \<times> RecoveryRequest) list"

text \<open>
  The clock. An operation calls \<open>Date.now()\<close> several times; \<open>clk k\<close> is the value of
  the call number \<open>k\<close> (from 0) within the operation.
\<close>

type_synonym clock = "nat \<Rightarrow> int"

text \<open>
  \<open>updateRequestStatus\<close>. The test \<open>request.timelockExpiresAt && ...\<close> is on the
  truthiness of a number: \<open>undefined\<close> and \<open>0\<close> are both false.
\<close>

definition updateRequestStatus :: "int \<Rightarrow> RecoveryRequest \<Rightarrow> RecoveryRequest" where
  "updateRequestStatus now request =
     (if now > r_expiresAt request \<and> r_status request \<noteq> Executed
      then request\<lparr>r_status := Expired\<rparr>
      else if r_status request = Approved
              \<and> (case r_timelockExpiresAt request of
                    None \<Rightarrow> False
                  | Some t \<Rightarrow> t \<noteq> 0 \<and> now \<ge> t)
           then request\<lparr>r_status := Ready\<rparr>
           else request)"

text \<open>
  \<open>validateRequestStatus\<close> updates the request and then throws when the status is not
  allowed. The update stays when it throws, so the request is returned in both cases.
\<close>

definition validateRequestStatus ::
  "int \<Rightarrow> RecoveryRequest \<Rightarrow> RecoveryStatus list \<Rightarrow> RecoveryRequest \<times> bool" where
  "validateRequestStatus now request allowedStatuses =
     (let request' = updateRequestStatus now request
      in (request', r_status request' \<in> set allowedStatuses))"

text \<open>
  \<open>Map.set\<close>, also used to write a mutated object back under its key, and \<open>Map.delete\<close>.
\<close>

fun map_set :: "('k \<times> 'v) list \<Rightarrow> 'k \<Rightarrow> 'v \<Rightarrow> ('k \<times> 'v) list" where
  "map_set [] k r = [(k, r)]"
| "map_set ((k', r') # rs) k r =
     (if k' = k then (k, r) # rs else (k', r') # map_set rs k r)"

definition map_delete :: "('k \<times> 'v) list \<Rightarrow> 'k \<Rightarrow> ('k \<times> 'v) list" where
  "map_delete rs k = filter (\<lambda>(k', r). k' \<noteq> k) rs"




definition cancelRecovery :: "clock \<Rightarrow> requests \<Rightarrow> string \<Rightarrow> (error + unit) \<times> requests" where
  "cancelRecovery clk rs requestId =
     (case map_of rs requestId of
        None \<Rightarrow> (Inl RequestNotFound, rs)
      | Some request \<Rightarrow>
          let (request1, ok) = validateRequestStatus (clk 0) request [Pending, Approved, Ready] in
          if \<not> ok then (Inl InvalidState, map_set rs requestId request1)
          else (Inr (),
                map_set rs requestId
                  (request1\<lparr>r_status := Cancelled,
                            r_approvals := map (\<lambda>approval. approval\<lparr>a_shareValue := ''''\<rparr>)
                                               (r_approvals request1)\<rparr>)))"









subsection \<open>Auxiliary notions for the status invariants\<close>

text \<open>
  \<open>settled r r'\<close>: the status of \<open>r'\<close> is one that a request with the final status of
  \<open>r\<close> can have later. \<open>touched\<close>: an entry after a scan of the map.
\<close>

definition settled :: "RecoveryRequest \<Rightarrow> RecoveryRequest \<Rightarrow> bool" where
  "settled r r' \<longleftrightarrow>
     (r_status r = Executed \<longrightarrow> r_status r' = Executed) \<and>
     (r_status r = Expired \<longrightarrow> r_status r' = Expired) \<and>
     (r_status r = Cancelled \<longrightarrow> r_status r' = Cancelled \<or> r_status r' = Expired)"

definition settled_at :: "requests \<Rightarrow> requests \<Rightarrow> string \<Rightarrow> bool" where
  "settled_at rs rs' k \<longleftrightarrow>
     (\<forall>r. map_of rs k = Some r \<longrightarrow> r_status r \<in> {Executed, Cancelled, Expired} \<longrightarrow>
          (\<exists>r'. map_of rs' k = Some r' \<and> settled r r'))"


subsection \<open>Example requests\<close>

text \<open>
  A request as \<open>initiateRecovery\<close> creates it with the default configuration (timelock
  48 hours, expiration 7 days) at time 1000, with one approval, and the same request
  after its threshold was reached at time 5000.
\<close>

definition ex_request :: RecoveryRequest where
  "ex_request =
     \<lparr>r_id = ''r1'', r_walletAddress = ''0x123'', r_keyId = ''key-1'',
      r_initiator = ''user@email.com'', r_reason = ''Lost phone'', r_status = Pending,
      r_threshold = 3,
      r_approvals = [\<lparr>a_guardianId = ''guardian-1'', a_shareIndex = 1,
                      a_shareValue = ''secret-share'', a_approvedAt = 1000, a_signature = None\<rparr>],
      r_timelockMs = 172800000, r_createdAt = 1000, r_approvedAt = None,
      r_timelockExpiresAt = None, r_expiresAt = 604801000, r_executedAt = None,
      r_recoveredSecret = None\<rparr>"




section \<open>External primitives\<close>

text \<open>
  The sources call library functions whose code is not part of the repository:
  \<open>scrypt\<close>, \<open>sha256\<close> and \<open>keccak_256\<close> of @noble/hashes, \<open>secretbox\<close> of tweetnacl,
  \<open>signAsync\<close> of @noble/secp256k1, and the built-ins \<open>TextEncoder\<close>, \<open>TextDecoder\<close>,
  \<open>btoa\<close> and \<open>atob\<close>. The model takes them as parameters, collected in one record.
  \<open>scrypt\<close> is the derivation with the fixed parameters of the source (N = 2^18, r = 8,
  p = 1, dkLen = 32); \<open>secretbox_open\<close> is \<open>None\<close> where the library returns \<open>null\<close>;
  \<open>atob\<close> is \<open>None\<close> and \<open>secp256k1_sign\<close> is \<open>None\<close> where the library throws.
  \<open>secp256k1_sign\<close> is the call with \<open>lowS: true\<close> and returns r, s and the recovery bit.
\<close>

record primitives =
  scrypt :: "byte list \<Rightarrow> byte list \<Rightarrow> byte list"
  secretbox :: "byte list \<Rightarrow> byte list \<Rightarrow> byte list \<Rightarrow> byte list"
  secretbox_open :: "byte list \<Rightarrow> byte list \<Rightarrow> byte list \<Rightarrow> byte list option"
  utf8_encode :: "string \<Rightarrow> byte list"
  utf8_decode :: "byte list \<Rightarrow> string"
  btoa :: "byte list \<Rightarrow> string"
  atob :: "string \<Rightarrow> byte list option"
  sha256 :: "byte list \<Rightarrow> byte list"
  keccak_256 :: "byte list \<Rightarrow> byte list"
  secp256k1_sign :: "byte list \<Rightarrow> byte list \<Rightarrow> (int \<times> int \<times> int option) option"

section \<open>Envelope encryption (packages/core/src/encryption.ts)\<close>

record EncryptedPayload =
  p_ciphertext :: "byte list"
  p_nonce :: "byte list"
  p_salt :: "byte list"
  p_version :: int

record SerializedEncryptedPayload =
  sp_ciphertext :: string
  sp_nonce :: string
  sp_salt :: string
  sp_version :: int

definition ENCRYPTION_VERSION :: int where
  "ENCRYPTION_VERSION = 1"

definition deriveKey :: "primitives \<Rightarrow> string \<Rightarrow> byte list \<Rightarrow> byte list" where
  "deriveKey P password salt = scrypt P (utf8_encode P password) salt"

text \<open>
  \<open>encrypt\<close>; \<open>salt\<close> and \<open>nonce\<close> are what \<open>randomBytes(32)\<close> and \<open>randomBytes(24)\<close>
  returned.
\<close>

definition encrypt :: "primitives \<Rightarrow> byte list \<Rightarrow> byte list \<Rightarrow> string \<Rightarrow> string \<Rightarrow> EncryptedPayload" where
  "encrypt P salt nonce plaintext password =
     (let key = deriveKey P password salt;
          plaintextBytes = utf8_encode P plaintext;
          ciphertext = secretbox P plaintextBytes nonce key
      in \<lparr>p_ciphertext = ciphertext, p_nonce = nonce, p_salt = salt,
          p_version = ENCRYPTION_VERSION\<rparr>)"

definition decrypt :: "primitives \<Rightarrow> EncryptedPayload \<Rightarrow> string \<Rightarrow> error + string" where
  "decrypt P payload password =
     (if p_version payload \<noteq> ENCRYPTION_VERSION then Inl BadVersion
      else
        let key = deriveKey P password (p_salt payload) in
        case secretbox_open P (p_ciphertext payload) (p_nonce payload) key of
          None \<Rightarrow> Inl Undecryptable
        | Some plaintext \<Rightarrow> Inr (utf8_decode P plaintext))"

definition serializePayload :: "primitives \<Rightarrow> EncryptedPayload \<Rightarrow> SerializedEncryptedPayload" where
  "serializePayload P payload =
     \<lparr>sp_ciphertext = btoa P (p_ciphertext payload),
      sp_nonce = btoa P (p_nonce payload),
      sp_salt = btoa P (p_salt payload),
      sp_version = p_version payload\<rparr>"

definition deserializePayload :: "primitives \<Rightarrow> SerializedEncryptedPayload \<Rightarrow> error + EncryptedPayload" where
  "deserializePayload P serialized =
     (case atob P (sp_ciphertext serialized) of
        None \<Rightarrow> Inl BadEncoding
      | Some ciphertext \<Rightarrow>
          (case atob P (sp_nonce serialized) of
             None \<Rightarrow> Inl BadEncoding
           | Some nonce \<Rightarrow>
               (case atob P (sp_salt serialized) of
                  None \<Rightarrow> Inl BadEncoding
                | Some salt \<Rightarrow>
                    Inr \<lparr>p_ciphertext = ciphertext, p_nonce = nonce, p_salt = salt,
                         p_version = sp_version serialized\<rparr>)))"

section \<open>Threshold signing (packages/mpc/src/threshold-signature.ts)\<close>

subsection \<open>Bytes and hexadecimal strings\<close>

text \<open>
  \<open>parseInt(s, 16)\<close>: leading white space, a sign and a prefix \<open>0x\<close> are skipped, then
  the longest run of hexadecimal digits is read; \<open>None\<close> is NaN. Storing the result in
  a \<open>Uint8Array\<close> takes it modulo 256, and NaN becomes 0.
\<close>

definition parseInt16 :: "string \<Rightarrow> int option" where
  "parseInt16 s =
     (let s1 = dropWhile is_white_space s;
          negative = (take 1 s1 = ''-'');
          s2 = (if take 1 s1 = ''-'' \<or> take 1 s1 = ''+'' then drop 1 s1 else s1);
          s3 = (if take 2 s2 = ''0x'' \<or> take 2 s2 = ''0X'' then drop 2 s2 else s2);
          digits = takeWhile (\<lambda>c. hex_digit_val c \<noteq> None) s3
      in if digits = [] then None
         else (case parse_hex 0 digits of
                 None \<Rightarrow> None
               | Some v \<Rightarrow> Some (if negative then - v else v)))"

definition to_uint8 :: "int option \<Rightarrow> byte" where
  "to_uint8 v = (case v of None \<Rightarrow> 0 | Some n \<Rightarrow> word_of_int n)"

definition hexToBytes :: "string \<Rightarrow> byte list" where
  "hexToBytes hex =
     (let cleanHex = (if starts_with_0x hex then drop 2 hex else hex)
      in map (\<lambda>i. to_uint8 (parseInt16 (take 2 (drop (i * 2) cleanHex))))
             [0..<length cleanHex div 2])"

definition bytesToHex :: "byte list \<Rightarrow> string" where
  "bytesToHex bytes = concat (map (\<lambda>b. padStart 2 CHR ''0'' (toString16 (uint b))) bytes)"

text \<open>\<open>n.toString()\<close> of a natural number, in decimal.\<close>

function nat_to_dec :: "nat \<Rightarrow> string" where
  "nat_to_dec n = (if n < 10 then [char_of (48 + n)] else nat_to_dec (n div 10) @ [char_of (48 + n mod 10)])"
  by pat_completeness auto
termination
  by (relation "measure id") auto

declare nat_to_dec.simps [simp del]

subsection \<open>Key shares\<close>

record ThresholdConfig =
  t_totalShares :: int
  t_threshold :: int

record KeyShare =
  k_index :: int
  k_share :: string
  k_publicKey :: string
  k_address :: string
  k_keyId :: string
  k_config :: ThresholdConfig

record SignatureResult =
  sig_r :: string
  sig_s :: string
  sig_v :: int
  sig_signature :: string

text \<open>The message hash is a hexadecimal string (\<open>Inl\<close>) or a \<open>Uint8Array\<close> (\<open>Inr\<close>).\<close>

definition signWithShares ::
  "primitives \<Rightarrow> string + byte list \<Rightarrow> KeyShare list \<Rightarrow> error + SignatureResult" where
  "signWithShares P messageHash shares =
     (if length shares < 2 then Inl TooFewShares
      else
        let keyId = k_keyId (shares ! 0);
            threshold = t_threshold (k_config (shares ! 0)) in
        if int (length shares) < threshold then Inl NotEnoughShares
        else if \<exists>share \<in> set shares. k_keyId share \<noteq> keyId then Inl MixedKeys
        else
          let rawShares = map (\<lambda>s. \<lparr>share_x = k_index s, share_y = k_share s\<rparr>) shares in
          case combineShares rawShares of
            Inl e \<Rightarrow> Inl e
          | Inr privateKey \<Rightarrow>
              let msgHash = (case messageHash of Inl hex \<Rightarrow> hexToBytes hex | Inr bytes \<Rightarrow> bytes) in
              if length msgHash \<noteq> 32 then Inl BadHashLength
              else
                (case secp256k1_sign P msgHash (hexToBytes privateKey) of
                   None \<Rightarrow> Inl SignerFailed
                 | Some (sr, ss, recoveryBit) \<Rightarrow>
                     let v = 27 + (case recoveryBit of None \<Rightarrow> 0 | Some b \<Rightarrow> b);
                         r = padStart 64 CHR ''0'' (toString16 sr);
                         s = padStart 64 CHR ''0'' (toString16 ss);
                         ethSignature = ''0x'' @ r @ s @ toString16 v
                     in Inr \<lparr>sig_r = ''0x'' @ r, sig_s = ''0x'' @ s, sig_v = v,
                             sig_signature = ethSignature\<rparr>))"

text \<open>The message is a string (\<open>Inl\<close>) or a \<open>Uint8Array\<close> (\<open>Inr\<close>).\<close>

definition signPersonalMessage ::
  "primitives \<Rightarrow> string + byte list \<Rightarrow> KeyShare list \<Rightarrow> error + string" where
  "signPersonalMessage P message shares =
     (let messageBytes = (case message of Inl s \<Rightarrow> utf8_encode P s | Inr bytes \<Rightarrow> bytes);
          prefix = CHR 0x19 # ''Ethereum Signed Message:'' @ [CHR 0x0A]
                     @ nat_to_dec (length messageBytes);
          prefixBytes = utf8_encode P prefix;
          fullMessage = prefixBytes @ messageBytes;
          messageHash = keccak_256 P fullMessage
      in case signWithShares P (Inr messageHash) shares of
           Inl e \<Rightarrow> Inl e
         | Inr res \<Rightarrow> Inr (sig_signature res))"

section \<open>The MPC wallet (class MPCWallet)\<close>

record EncryptedKeyShare =
  e_index :: int
  e_encryptedShare :: SerializedEncryptedPayload
  e_publicKey :: string
  e_address :: string
  e_keyId :: string
  e_config :: ThresholdConfig
  e_label :: "string option"

record ShareHolder =
  h_id :: string
  h_name :: string
  h_type :: string
  h_shareIndex :: int
  h_contact :: "string option"
  h_createdAt :: int

record MPCWalletState =
  w_keyId :: string
  w_publicKey :: string
  w_address :: string
  w_config :: ThresholdConfig
  w_shareHolders :: "ShareHolder list"
  w_createdAt :: int

record MPCWallet =
  state :: "MPCWalletState option"
  collectedShares :: "KeyShare list"

definition new_MPCWallet :: MPCWallet where
  "new_MPCWallet = \<lparr>state = None, collectedShares = []\<rparr>"


definition getCollectedShareCount :: "MPCWallet \<Rightarrow> nat" where
  "getCollectedShareCount w = length (collectedShares w)"

definition canSign :: "MPCWallet \<Rightarrow> bool" where
  "canSign w =
     (case state w of
        None \<Rightarrow> False
      | Some s \<Rightarrow> int (length (collectedShares w)) \<ge> t_threshold (w_config s))"

text \<open>
  \<open>addShare\<close>. Everything inside the \<open>try\<close> block that throws (a string that is not
  base64, an unknown version, a failed decryption) makes the method return \<open>false\<close>.
\<close>

definition addShare ::
  "primitives \<Rightarrow> MPCWallet \<Rightarrow> EncryptedKeyShare \<Rightarrow> string \<Rightarrow> (error + bool) \<times> MPCWallet" where
  "addShare P w encryptedShare password =
     (case state w of
        None \<Rightarrow> (Inl StateNotLoaded, w)
      | Some s \<Rightarrow>
          if e_keyId encryptedShare \<noteq> w_keyId s then (Inl WrongWallet, w)
          else if \<exists>c \<in> set (collectedShares w). k_index c = e_index encryptedShare
          then (Inr False, w)
          else
            (case deserializePayload P (e_encryptedShare encryptedShare) of
               Inl e \<Rightarrow> (Inr False, w)
             | Inr payload \<Rightarrow>
                 (case decrypt P payload password of
                    Inl e \<Rightarrow> (Inr False, w)
                  | Inr shareValue \<Rightarrow>
                      let keyShare = \<lparr>k_index = e_index encryptedShare,
                                       k_share = shareValue,
                                       k_publicKey = e_publicKey encryptedShare,
                                       k_address = e_address encryptedShare,
                                       k_keyId = e_keyId encryptedShare,
                                       k_config = e_config encryptedShare\<rparr>
                      in (Inr True, w\<lparr>collectedShares := collectedShares w @ [keyShare]\<rparr>))))"

definition addPlainShare :: "MPCWallet \<Rightarrow> KeyShare \<Rightarrow> (error + bool) \<times> MPCWallet" where
  "addPlainShare w share =
     (case state w of
        None \<Rightarrow> (Inl StateNotLoaded, w)
      | Some s \<Rightarrow>
          if k_keyId share \<noteq> w_keyId s then (Inl WrongWallet, w)
          else if \<exists>c \<in> set (collectedShares w). k_index c = k_index share
          then (Inr False, w)
          else (Inr True, w\<lparr>collectedShares := collectedShares w @ [share]\<rparr>))"



definition signMessage ::
  "primitives \<Rightarrow> MPCWallet \<Rightarrow> string + byte list \<Rightarrow> (error + string) \<times> MPCWallet" where
  "signMessage P w message =
     (if \<not> canSign w then (Inl NotEnoughShares, w)
      else (signPersonalMessage P message (collectedShares w), w))"

subsection \<open>Transactions\<close>

record TxData =
  tx_nonce :: int
  tx_gasPrice :: "int option"
  tx_gasLimit :: int
  tx_to :: string
  tx_value :: int
  tx_data :: string
  tx_chainId :: int

definition rlpEncodeBigInt :: "int \<Rightarrow> byte list" where
  "rlpEncodeBigInt n =
     (if n = 0 then [0x80]
      else
        let hex = toString16 n;
            bytes = hexToBytes (if odd (length hex) then CHR ''0'' # hex else hex)
        in if length bytes = 1 \<and> bytes ! 0 < 0x80 then bytes
           else word_of_nat (0x80 + length bytes) # bytes)"

definition rlpEncodeNumber :: "int \<Rightarrow> byte list" where
  "rlpEncodeNumber n = (if n = 0 then [0x80] else rlpEncodeBigInt n)"

definition rlpEncodeList :: "byte list list \<Rightarrow> byte list" where
  "rlpEncodeList items =
     (let content = concat items in
      if length content < 56 then word_of_nat (0xc0 + length content) # content
      else
        let lenBytes = rlpEncodeBigInt (int (length content))
        in word_of_nat (0xf7 + length lenBytes) # lenBytes @ content)"

definition data_or_0x :: "string \<Rightarrow> string" where
  "data_or_0x d = (if d = [] then ''0x'' else d)"

definition encodeTransaction :: "TxData \<Rightarrow> byte list" where
  "encodeTransaction tx =
     rlpEncodeList
       [rlpEncodeNumber (tx_nonce tx),
        rlpEncodeBigInt (case tx_gasPrice tx of None \<Rightarrow> 0 | Some g \<Rightarrow> g),
        rlpEncodeBigInt (tx_gasLimit tx),
        hexToBytes (tx_to tx),
        rlpEncodeBigInt (tx_value tx),
        hexToBytes (data_or_0x (tx_data tx)),
        rlpEncodeNumber (tx_chainId tx),
        [0x80],
        [0x80]]"

definition encodeSignedTransaction :: "TxData \<Rightarrow> string \<Rightarrow> string \<Rightarrow> int \<Rightarrow> string" where
  "encodeSignedTransaction tx r s v =
     ''0x'' @ bytesToHex (rlpEncodeList
       [rlpEncodeNumber (tx_nonce tx),
        rlpEncodeBigInt (case tx_gasPrice tx of None \<Rightarrow> 0 | Some g \<Rightarrow> g),
        rlpEncodeBigInt (tx_gasLimit tx),
        hexToBytes (tx_to tx),
        rlpEncodeBigInt (tx_value tx),
        hexToBytes (data_or_0x (tx_data tx)),
        rlpEncodeNumber v,
        hexToBytes r,
        hexToBytes s])"

definition signTransaction ::
  "primitives \<Rightarrow> MPCWallet \<Rightarrow> TxData \<Rightarrow> (error + string) \<times> MPCWallet" where
  "signTransaction P w txData =
     (if \<not> canSign w then (Inl NotEnoughShares, w)
      else
        let txForSigning = encodeTransaction txData;
            txHash = keccak_256 P txForSigning
        in case signWithShares P (Inr txHash) (collectedShares w) of
             Inl e \<Rightarrow> (Inl e, w)
           | Inr res \<Rightarrow>
               let eip155V = tx_chainId txData * 2 + 35 + (sig_v res - 27)
               in (Inr (encodeSignedTransaction txData (sig_r res) (sig_s res) eip155V), w))"

section \<open>Guardian manager (the GuardianManager class, src/unnamed/part_001)\<close>

datatype GuardianStatus = GuardianPending | GuardianAccepted | GuardianDeclined | GuardianRevoked

datatype ContactType = Email | Phone | WalletContact | OtherContact

record Guardian =
  g_id :: string
  g_name :: string
  g_contact :: string
  g_contactType :: ContactType
  g_shareIndex :: int
  g_status :: GuardianStatus
  g_addedAt :: int
  g_acceptedAt :: "int option"
  g_publicKey :: "string option"
  g_verificationHash :: "string option"

record GuardianInvite =
  i_id :: string
  i_guardianId :: string
  i_walletAddress :: string
  i_ownerName :: string
  i_threshold :: int
  i_totalGuardians :: int
  i_encryptedShare :: string
  i_verificationCode :: string
  i_expiresAt :: int
  i_createdAt :: int

record GuardianResponse =
  rsp_inviteId :: string
  rsp_guardianId :: string
  rsp_accepted :: bool
  rsp_publicKey :: "string option"
  rsp_verificationCode :: string
  rsp_respondedAt :: int

record GuardianManager =
  guardians :: "(string \<times> Guardian) list"
  pendingInvites :: "(string \<times> GuardianInvite) list"

definition new_GuardianManager :: GuardianManager where
  "new_GuardianManager = \<lparr>guardians = [], pendingInvites = []\<rparr>"

text \<open>\<open>generateId\<close>, on the 16 bytes that \<open>randomBytes(16)\<close> returned.\<close>

definition generateId :: "byte list \<Rightarrow> string" where
  "generateId bytes = concat (map (\<lambda>b. padStart 2 CHR ''0'' (toString16 (uint b))) bytes)"

text \<open>
  \<open>generateVerificationCode\<close>, on the four bytes that \<open>randomBytes(4)\<close> returned. The
  shifts and \<open>|\<close> of JavaScript work on signed 32-bit integers, so \<open>num\<close> is negative
  when the top bit of the first byte is set.
\<close>

definition generateVerificationCode :: "byte \<Rightarrow> byte \<Rightarrow> byte \<Rightarrow> byte \<Rightarrow> string" where
  "generateVerificationCode b0 b1 b2 b3 =
     (let w = push_bit 24 (ucast b0) OR push_bit 16 (ucast b1) OR push_bit 8 (ucast b2) OR ucast b3
              :: 32 word;
          num = sint w
      in padStart 6 CHR ''0'' (nat_to_dec (nat (\<bar>num\<bar> mod 1000000))))"

definition hashVerificationCode :: "primitives \<Rightarrow> string \<Rightarrow> string" where
  "hashVerificationCode P code =
     concat (map (\<lambda>b. padStart 2 CHR ''0'' (toString16 (uint b)))
                 (sha256 P (utf8_encode P code)))"

record AddGuardianParams =
  ag_name :: string
  ag_contact :: string
  ag_contactType :: ContactType
  ag_shareIndex :: int
  ag_publicKey :: "string option"

text \<open>\<open>addGuardian\<close>; \<open>idBytes\<close> is the randomness of \<open>generateId\<close>.\<close>

definition addGuardian ::
  "clock \<Rightarrow> byte list \<Rightarrow> GuardianManager \<Rightarrow> AddGuardianParams \<Rightarrow> Guardian \<times> GuardianManager" where
  "addGuardian clk idBytes m params =
     (let guardian = \<lparr>g_id = generateId idBytes, g_name = ag_name params,
                       g_contact = ag_contact params, g_contactType = ag_contactType params,
                       g_shareIndex = ag_shareIndex params, g_status = GuardianPending,
                       g_addedAt = clk 0, g_acceptedAt = None,
                       g_publicKey = ag_publicKey params, g_verificationHash = None\<rparr>
      in (guardian, m\<lparr>guardians := map_set (guardians m) (g_id guardian) guardian\<rparr>))"

record CreateInviteParams =
  ci_guardianId :: string
  ci_walletAddress :: string
  ci_ownerName :: string
  ci_threshold :: int
  ci_totalGuardians :: int
  ci_encryptedShare :: string
  ci_expirationDays :: "int option"

text \<open>
  \<open>createInvite\<close>; \<open>b0 .. b3\<close> are the random bytes of the verification code and
  \<open>idBytes\<close> those of the invite id.
\<close>

definition createInvite ::
  "primitives \<Rightarrow> clock \<Rightarrow> byte \<Rightarrow> byte \<Rightarrow> byte \<Rightarrow> byte \<Rightarrow> byte list \<Rightarrow> GuardianManager
     \<Rightarrow> CreateInviteParams \<Rightarrow> (error + GuardianInvite) \<times> GuardianManager" where
  "createInvite P clk b0 b1 b2 b3 idBytes m params =
     (case map_of (guardians m) (ci_guardianId params) of
        None \<Rightarrow> (Inl GuardianNotFound, m)
      | Some guardian \<Rightarrow>
          let verificationCode = generateVerificationCode b0 b1 b2 b3;
              guardian' = guardian\<lparr>g_verificationHash :=
                                     Some (hashVerificationCode P verificationCode)\<rparr>;
              invite = \<lparr>i_id = generateId idBytes,
                        i_guardianId = ci_guardianId params,
                        i_walletAddress = ci_walletAddress params,
                        i_ownerName = ci_ownerName params,
                        i_threshold = ci_threshold params,
                        i_totalGuardians = ci_totalGuardians params,
                        i_encryptedShare = ci_encryptedShare params,
                        i_verificationCode = verificationCode,
                        i_expiresAt = clk 0
                          + (case ci_expirationDays params of None \<Rightarrow> 7 | Some d \<Rightarrow> d)
                            * 24 * 60 * 60 * 1000,
                        i_createdAt = clk 1\<rparr>
          in (Inr invite,
              m\<lparr>guardians := map_set (guardians m) (ci_guardianId params) guardian',
                pendingInvites := map_set (pendingInvites m) (i_id invite) invite\<rparr>))"

text \<open>
  \<open>processResponse\<close>. The guardian is the one named by the response. A public key is
  stored when the response has a non-empty one.
\<close>

definition processResponse ::
  "primitives \<Rightarrow> clock \<Rightarrow> GuardianManager \<Rightarrow> GuardianResponse \<Rightarrow> (error + bool) \<times> GuardianManager" where
  "processResponse P clk m response =
     (case map_of (pendingInvites m) (rsp_inviteId response) of
        None \<Rightarrow> (Inl InviteNotFound, m)
      | Some invite \<Rightarrow>
          if clk 0 > i_expiresAt invite
          then (Inl InviteExpired,
                m\<lparr>pendingInvites := map_delete (pendingInvites m) (i_id invite)\<rparr>)
          else
            (case map_of (guardians m) (rsp_guardianId response) of
               None \<Rightarrow> (Inl GuardianNotFound, m)
             | Some guardian \<Rightarrow>
                 let providedHash = hashVerificationCode P (rsp_verificationCode response) in
                 if Some providedHash \<noteq> g_verificationHash guardian then (Inl BadCode, m)
                 else
                   let guardian' =
                         (if rsp_accepted response
                          then guardian\<lparr>g_status := GuardianAccepted,
                                        g_acceptedAt := Some (clk 1),
                                        g_publicKey :=
                                          (case rsp_publicKey response of
                                             None \<Rightarrow> g_publicKey guardian
                                           | Some k \<Rightarrow> if k = [] then g_publicKey guardian
                                                        else Some k)\<rparr>
                          else guardian\<lparr>g_status := GuardianDeclined\<rparr>)
                   in (Inr (rsp_accepted response),
                       m\<lparr>guardians := map_set (guardians m) (rsp_guardianId response) guardian',
                         pendingInvites := map_delete (pendingInvites m) (i_id invite)\<rparr>)))"

section \<open>Social-recovery facade (packages/social-recovery/src/social-recovery-wallet.ts)\<close>

record SocialRecoveryConfig =
  c_totalShares :: int
  c_threshold :: int
  c_ownerShares :: int
  c_timelockHours :: int
  c_expirationDays :: int

text \<open>The constructor takes a partial configuration; a missing field is \<open>None\<close>.\<close>

record PartialSocialRecoveryConfig =
  pc_totalShares :: "int option"
  pc_threshold :: "int option"
  pc_ownerShares :: "int option"
  pc_timelockHours :: "int option"
  pc_expirationDays :: "int option"

definition DEFAULT_CONFIG :: SocialRecoveryConfig where
  "DEFAULT_CONFIG =
     \<lparr>c_totalShares = 5, c_threshold = 3, c_ownerShares = 1, c_timelockHours = 48,
      c_expirationDays = 7\<rparr>"

definition merge_config :: "SocialRecoveryConfig \<Rightarrow> PartialSocialRecoveryConfig \<Rightarrow> SocialRecoveryConfig" where
  "merge_config d c =
     \<lparr>c_totalShares = (case pc_totalShares c of None \<Rightarrow> c_totalShares d | Some v \<Rightarrow> v),
      c_threshold = (case pc_threshold c of None \<Rightarrow> c_threshold d | Some v \<Rightarrow> v),
      c_ownerShares = (case pc_ownerShares c of None \<Rightarrow> c_ownerShares d | Some v \<Rightarrow> v),
      c_timelockHours = (case pc_timelockHours c of None \<Rightarrow> c_timelockHours d | Some v \<Rightarrow> v),
      c_expirationDays = (case pc_expirationDays c of None \<Rightarrow> c_expirationDays d | Some v \<Rightarrow> v)\<rparr>"

definition validateConfig :: "SocialRecoveryConfig \<Rightarrow> error + unit" where
  "validateConfig config =
     (let totalShares = c_totalShares config;
          threshold = c_threshold config;
          ownerShares = c_ownerShares config;
          guardianShares = totalShares - ownerShares
      in if threshold < 2 then Inl ThresholdTooSmall
         else if ownerShares < 1 then Inl OwnerSharesTooSmall
         else if guardianShares < threshold - ownerShares then Inl NotEnoughGuardianShares
         else if threshold > totalShares then Inl TotalBelowThreshold
         else Inr ())"

record RecoveryConfig =
  rc_timelockHours :: int
  rc_expirationDays :: int
  rc_notifyOwner :: bool
  rc_cooldownHours :: int

record RecoveryManager =
  rm_requests :: requests
  rm_config :: RecoveryConfig
  rm_lastAttempt :: "(string \<times> int) list"

definition new_RecoveryManager :: "int \<Rightarrow> int \<Rightarrow> RecoveryManager" where
  "new_RecoveryManager timelockHours expirationDays =
     \<lparr>rm_requests = [],
      rm_config = \<lparr>rc_timelockHours = timelockHours, rc_expirationDays = expirationDays,
                   rc_notifyOwner = True, rc_cooldownHours = 24\<rparr>,
      rm_lastAttempt = []\<rparr>"

record SocialRecoveryWallet =
  sr_mpcWallet :: MPCWallet
  sr_guardianManager :: GuardianManager
  sr_recoveryManager :: RecoveryManager
  sr_config :: SocialRecoveryConfig
  sr_ownerShares :: "EncryptedKeyShare list"

text \<open>The constructor: it builds the three parts and then validates the configuration.\<close>

definition new_SocialRecoveryWallet :: "PartialSocialRecoveryConfig \<Rightarrow> error + SocialRecoveryWallet" where
  "new_SocialRecoveryWallet config =
     (let cfg = merge_config DEFAULT_CONFIG config in
      case validateConfig cfg of
        Inl e \<Rightarrow> Inl e
      | Inr u \<Rightarrow>
          Inr \<lparr>sr_mpcWallet = new_MPCWallet,
               sr_guardianManager = new_GuardianManager,
               sr_recoveryManager = new_RecoveryManager (c_timelockHours cfg) (c_expirationDays cfg),
               sr_config = cfg,
               sr_ownerShares = []\<rparr>)"

definition sr_signMessage ::
  "primitives \<Rightarrow> SocialRecoveryWallet \<Rightarrow> string + byte list \<Rightarrow> (error + string) \<times> SocialRecoveryWallet" where
  "sr_signMessage P f message =
     (let (res, w) = signMessage P (sr_mpcWallet f) message in (res, f\<lparr>sr_mpcWallet := w\<rparr>))"

definition sr_signTransaction ::
  "primitives \<Rightarrow> SocialRecoveryWallet \<Rightarrow> TxData \<Rightarrow> (error + string) \<times> SocialRecoveryWallet" where
  "sr_signTransaction P f txData =
     (let (res, w) = signTransaction P (sr_mpcWallet f) txData in (res, f\<lparr>sr_mpcWallet := w\<rparr>))"


section \<open>Example values\<close>

text \<open>
  An instance of the external primitives for the examples below. These are stand-ins,
  not the real algorithms: the key is the password, the box is the key followed by the
  message, the encodings map a character to the byte with its code, the signer returns a
  fixed signature.
\<close>

definition test_primitives :: primitives where
  "test_primitives =
     \<lparr>scrypt = (\<lambda>password salt. password),
      secretbox = (\<lambda>message nonce key. key @ message),
      secretbox_open = (\<lambda>box nonce key.
         if take (length key) box = key then Some (drop (length key) box) else None),
      utf8_encode = map of_char,
      utf8_decode = map (\<lambda>b. char_of (unat b)),
      btoa = map (\<lambda>b. char_of (unat b)),
      atob = (\<lambda>s. Some (map of_char s)),
      sha256 = (\<lambda>bytes. bytes),
      keccak_256 = (\<lambda>bytes. replicate 32 0),
      secp256k1_sign = (\<lambda>hash key. Some (1, 1, Some 0))\<rparr>"

definition ex_config :: ThresholdConfig where
  "ex_config = \<lparr>t_totalShares = 3, t_threshold = 2\<rparr>"

definition ex_state :: MPCWalletState where
  "ex_state = \<lparr>w_keyId = ''key-1'', w_publicKey = ''04aa'', w_address = ''0x123'',
                w_config = ex_config, w_shareHolders = [], w_createdAt = 1000\<rparr>"

definition ex_keyShare :: "int \<Rightarrow> string \<Rightarrow> KeyShare" where
  "ex_keyShare i y = \<lparr>k_index = i, k_share = y, k_publicKey = ''04aa'', k_address = ''0x123'',
                      k_keyId = ''key-1'', k_config = ex_config\<rparr>"

text \<open>The wallet after \<open>loadState\<close> and after adding the shares 1 and 2.\<close>

definition ex_wallet :: MPCWallet where
  "ex_wallet = \<lparr>state = Some ex_state,
                 collectedShares = [ex_keyShare 1 ''05'', ex_keyShare 2 ''09'']\<rparr>"

definition ex_encryptedShare :: "int \<Rightarrow> string \<Rightarrow> string \<Rightarrow> EncryptedKeyShare" where
  "ex_encryptedShare i keyId box =
     \<lparr>e_index = i,
      e_encryptedShare = \<lparr>sp_ciphertext = box, sp_nonce = ''n'', sp_salt = ''s'', sp_version = 1\<rparr>,
      e_publicKey = ''04aa'', e_address = ''0x123'', e_keyId = keyId, e_config = ex_config,
      e_label = None\<rparr>"



definition ex_partial_config :: PartialSocialRecoveryConfig where
  "ex_partial_config =
     \<lparr>pc_totalShares = Some 3, pc_threshold = Some 2, pc_ownerShares = Some 3,
      pc_timelockHours = None, pc_expirationDays = None\<rparr>"

text \<open>
  A guardian manager with one guardian, after an invite with the verification code
  \<open>000042\<close> was created for her.
\<close>

definition ex_guardian :: Guardian where
  "ex_guardian =
     \<lparr>g_id = ''g1'', g_name = ''Alice'', g_contact = ''alice@example.com'',
      g_contactType = Email, g_shareIndex = 2, g_status = GuardianPending, g_addedAt = 1000,
      g_acceptedAt = None, g_publicKey = None,
      g_verificationHash = Some (hashVerificationCode test_primitives ''000042'')\<rparr>"

definition ex_invite :: GuardianInvite where
  "ex_invite =
     \<lparr>i_id = ''i1'', i_guardianId = ''g1'', i_walletAddress = ''0x123'',
      i_ownerName = ''Wallet Owner'', i_threshold = 3, i_totalGuardians = 4,
      i_encryptedShare = ''{}'', i_verificationCode = ''000042'', i_expiresAt = 604801000,
      i_createdAt = 1000\<rparr>"

definition ex_manager :: GuardianManager where
  "ex_manager = \<lparr>guardians = [(''g1'', ex_guardian)], pendingInvites = [(''i1'', ex_invite)]\<rparr>"

definition ex_response :: "bool \<Rightarrow> string \<Rightarrow> GuardianResponse" where
  "ex_response accepted code =
     \<lparr>rsp_inviteId = ''i1'', rsp_guardianId = ''g1'', rsp_accepted = accepted,
      rsp_publicKey = None, rsp_verificationCode = code, rsp_respondedAt = 2000\<rparr>"

definition ex_invite_params :: CreateInviteParams where
  "ex_invite_params =
     \<lparr>ci_guardianId = ''g1'', ci_walletAddress = ''0x123'', ci_ownerName = ''Wallet Owner'',
      ci_threshold = 3, ci_totalGuardians = 4, ci_encryptedShare = ''{}'',
      ci_expirationDays = None\<rparr>"

text \<open>The characters \<open>0\<close> to \<open>9\<close>.\<close>

definition is_decimal_digit :: "char \<Rightarrow> bool" where
  "is_decimal_digit c = (48 \<le> (of_char c :: nat) \<and> (of_char c :: nat) \<le> 57)"

section \<open>Properties of the recovery coordinator\<close>


lemma map_of_map_set: "map_of (map_set rs k r) = (map_of rs)(k \<mapsto> r)"
  by (induction rs) (auto simp: fun_eq_iff)

lemma settled_refl: "settled r r"
  by (simp add: settled_def)




lemma settled_at_set_other:
  "k \<noteq> k' \<Longrightarrow> settled_at rs (map_set rs k' r') k"
  by (auto simp: settled_at_def map_of_map_set settled_refl)

lemma settled_at_set_same:
  "map_of rs k = Some r \<Longrightarrow> (r_status r \<in> {Executed, Cancelled, Expired} \<Longrightarrow> settled r r') \<Longrightarrow>
   settled_at rs (map_set rs k r') k"
  by (auto simp: settled_at_def map_of_map_set)

























subsection \<open>Cancellation\<close>

text \<open>
  Claim C9. \<open>cancelRecovery\<close> on an existing request succeeds exactly when the status
  after the lazy status update is pending, approved or ready. On success the stored
  request is cancelled and every one of its approvals (as many as before) has the empty
  string as \<open>shareValue\<close>. Otherwise the call fails with InvalidState and the stored
  request is the updated one.
\<close>

theorem cancelRecovery_spec:
  assumes "map_of rs requestId = Some request"
  shows "let request1 = updateRequestStatus (clk 0) request;
             (result, rs') = cancelRecovery clk rs requestId
         in if r_status request1 \<in> {Pending, Approved, Ready}
            then result = Inr ()
               \<and> (\<exists>request'. map_of rs' requestId = Some request'
                     \<and> r_status request' = Cancelled
                     \<and> length (r_approvals request') = length (r_approvals request)
                     \<and> (\<forall>approval \<in> set (r_approvals request'). a_shareValue approval = ''''))
            else result = Inl InvalidState
               \<and> map_of rs' requestId = Some request1"
proof -
  have len: "r_approvals (updateRequestStatus (clk 0) request) = r_approvals request"
    by (simp add: updateRequestStatus_def)
  show ?thesis
    using assms
    by (auto simp: cancelRecovery_def validateRequestStatus_def Let_def map_of_map_set len)
qed

theorem cancelRecovery_spec_witness:
  "fst (cancelRecovery (\<lambda>_. 2000) [(''r1'', ex_request)] ''r1'') = Inr ()
   \<and> map_option r_status
        (map_of (snd (cancelRecovery (\<lambda>_. 2000) [(''r1'', ex_request)] ''r1'')) ''r1'')
       = Some Cancelled
   \<and> map_option (\<lambda>r. map a_shareValue (r_approvals r))
        (map_of (snd (cancelRecovery (\<lambda>_. 2000) [(''r1'', ex_request)] ''r1'')) ''r1'')
       = Some ['''']"
proof -
  have m: "map_of [(''r1'', ex_request)] ''r1'' = Some ex_request" by simp
  have st: "r_status (updateRequestStatus 2000 ex_request) \<in> {Pending, Approved, Ready}"
    by (simp add: updateRequestStatus_def ex_request_def)
  have len: "length (r_approvals ex_request) = 1"
    by (simp add: ex_request_def)
  have one: "map a_shareValue as = ['''']"
    if "length as = 1" and "\<forall>a \<in> set as. a_shareValue a = ''''" for as :: "GuardianApproval list"
    using that by (cases as) auto
  show ?thesis
    using cancelRecovery_spec [OF m, of "\<lambda>_. 2000"] st len one
    by (auto simp: Let_def split: prod.splits)
qed

subsection \<open>Expiration before timelock\<close>



subsection \<open>Final states\<close>




section \<open>The random scalar sampler\<close>

lemma bigint_rem_nonneg: "0 \<le> a \<Longrightarrow> bigint_rem a b = a mod \<bar>b\<bar>"
  by (cases "a = 0") (simp_all add: bigint_rem_def)

lemma PRIME_pos: "0 < PRIME"
  by (simp add: PRIME_def)

lemma bigint_rem_PRIME: "0 \<le> a \<Longrightarrow> bigint_rem a PRIME = a mod PRIME"
  using PRIME_pos by (simp add: bigint_rem_nonneg)

lemma bytes_value_nonneg:
  "0 \<le> acc \<Longrightarrow> 0 \<le> fold (\<lambda>b value. push_bit 8 value OR uint b) bytes (acc::int)"
  by (induction bytes arbitrary: acc) simp_all

lemma shift_or_byte: "push_bit 8 (v::int) OR uint (b::byte) = 256 * v + uint b"
proof -
  have "push_bit 8 v AND uint b = 0"
    by (auto simp: bit_eq_iff bit_simps dest: bit_imp_le_length)
  then have "push_bit 8 v + uint b = push_bit 8 v OR uint b"
    by (rule disjunctive_add_eq_or)
  then show ?thesis
    by (simp add: push_bit_eq_mult)
qed

lemma bytes_value_plain:
  "fold (\<lambda>b value. 256 * value + uint b) (bytes :: byte list) (acc::int)
     = acc * 256 ^ length bytes + big_endian_value bytes"
proof (induction bytes arbitrary: acc)
  case Nil
  then show ?case by simp
next
  case (Cons b bytes)
  have "fold (\<lambda>b value. 256 * value + uint b) (b # bytes) acc
          = fold (\<lambda>b value. 256 * value + uint b) bytes (256 * acc + uint b)"
    by simp
  also have "\<dots> = (256 * acc + uint b) * 256 ^ length bytes + big_endian_value bytes"
    by (rule Cons.IH)
  also have "\<dots> = acc * 256 ^ length (b # bytes) + big_endian_value (b # bytes)"
    by (simp add: algebra_simps)
  finally show ?case .
qed

lemma bytes_value_fold:
  "fold (\<lambda>b value. push_bit 8 value OR uint b) bytes (acc::int)
     = acc * 256 ^ length bytes + big_endian_value bytes"
proof -
  have "(\<lambda>(b::byte) (value::int). push_bit 8 value OR uint b) = (\<lambda>b value. 256 * value + uint b)"
    by (intro ext) (rule shift_or_byte)
  then show ?thesis
    by (simp only: bytes_value_plain)
qed

lemma big_endian_value_nonneg: "0 \<le> big_endian_value bytes"
  by (induction bytes) simp_all

text \<open>
  Claim C8, as amended. For every byte string (so for every 32 random bytes) the sampler
  returns the big-endian value of the bytes reduced modulo \<open>n\<close>, a value \<open>v\<close> with
  \<open>0 \<le> v < n\<close>.
\<close>

theorem randomFieldElement_value:
  "randomFieldElement bytes = big_endian_value bytes mod PRIME
   \<and> 0 \<le> randomFieldElement bytes \<and> randomFieldElement bytes < PRIME"
proof -
  have "fold (\<lambda>b value. push_bit 8 value OR uint b) bytes (0::int) = big_endian_value bytes"
    by (simp add: bytes_value_fold)
  then show ?thesis
    using PRIME_pos big_endian_value_nonneg [of bytes]
    by (simp add: randomFieldElement_def bigint_rem_PRIME)
qed

text \<open>Claim C8 as stated fails: on 32 zero bytes the sampler returns zero.\<close>

theorem randomFieldElement_zero:
  "length (replicate 32 (0::byte)) = 32 \<and> randomFieldElement (replicate 32 0) = 0"
proof -
  have "fold (\<lambda>b value. push_bit 8 value OR uint b) (replicate n (0::byte)) (0::int) = 0" for n
    by (induction n) simp_all
  then show ?thesis
    by (simp add: randomFieldElement_def bigint_rem_def)
qed

section \<open>Validation of the facade configuration\<close>

text \<open>
  Claim C5, as amended. The constructor fails exactly when \<open>threshold < 2\<close>, or
  \<open>ownerShares < 1\<close>, or \<open>totalShares < threshold\<close> (the test
  \<open>totalShares - ownerShares < threshold - ownerShares\<close> says the same as the last one).
  It does not compare \<open>ownerShares\<close> with \<open>totalShares\<close>.
\<close>

theorem constructor_fails_iff:
  "isl (new_SocialRecoveryWallet config) =
     (let cfg = merge_config DEFAULT_CONFIG config
      in c_threshold cfg < 2 \<or> c_ownerShares cfg < 1 \<or> c_totalShares cfg < c_threshold cfg)"
  by (auto simp: new_SocialRecoveryWallet_def validateConfig_def Let_def split: sum.splits)

text \<open>
  Claim C5 as stated fails: three shares, threshold two and three owner shares (more than
  \<open>totalShares - 1\<close>) are accepted.
\<close>

theorem owner_shares_not_bounded:
  "c_ownerShares (merge_config DEFAULT_CONFIG ex_partial_config)
     > c_totalShares (merge_config DEFAULT_CONFIG ex_partial_config) - 1
   \<and> validateConfig (merge_config DEFAULT_CONFIG ex_partial_config) = Inr ()
   \<and> \<not> isl (new_SocialRecoveryWallet ex_partial_config)"
  by (simp add: new_SocialRecoveryWallet_def validateConfig_def merge_config_def
      ex_partial_config_def Let_def)

section \<open>Adding a share to the MPC wallet\<close>

text \<open>
  Claim C6, as amended. With a loaded state, \<open>addShare\<close> throws WrongWallet when the key
  id of the share differs from the one of the state; otherwise it returns \<open>false\<close>,
  without throwing and without changing the wallet, when the index is already collected,
  and also when decoding or decryption fails.
\<close>

theorem addShare_spec:
  assumes "state w = Some s"
  shows "(e_keyId enc \<noteq> w_keyId s \<longrightarrow> addShare P w enc password = (Inl WrongWallet, w))
    \<and> (e_keyId enc = w_keyId s \<and> (\<exists>c \<in> set (collectedShares w). k_index c = e_index enc)
         \<longrightarrow> addShare P w enc password = (Inr False, w))
    \<and> (e_keyId enc = w_keyId s \<and> (\<forall>c \<in> set (collectedShares w). k_index c \<noteq> e_index enc)
         \<and> (\<forall>payload. deserializePayload P (e_encryptedShare enc) = Inr payload
               \<longrightarrow> isl (decrypt P payload password))
         \<longrightarrow> addShare P w enc password = (Inr False, w))"
  using assms
  by (auto simp: addShare_def split: sum.splits)

lemma test_deserialize:
  "deserializePayload test_primitives \<lparr>sp_ciphertext = c, sp_nonce = n, sp_salt = s, sp_version = v\<rparr>
     = Inr \<lparr>p_ciphertext = map of_char c, p_nonce = map of_char n, p_salt = map of_char s,
            p_version = v\<rparr>"
  by (simp add: deserializePayload_def test_primitives_def)

theorem addShare_spec_witness:
  "addShare test_primitives ex_wallet (ex_encryptedShare 3 ''key-2'' ''pw05'') ''pw''
     = (Inl WrongWallet, ex_wallet)
   \<and> addShare test_primitives ex_wallet (ex_encryptedShare 1 ''key-1'' ''pw05'') ''pw''
     = (Inr False, ex_wallet)
   \<and> addShare test_primitives ex_wallet (ex_encryptedShare 3 ''key-1'' ''pw05'') ''xy''
     = (Inr False, ex_wallet)"
proof -
  have s: "state ex_wallet = Some ex_state"
    by (simp add: ex_wallet_def)
  have d: "isl (decrypt test_primitives payload ''xy'')"
    if "deserializePayload test_primitives (e_encryptedShare (ex_encryptedShare 3 ''key-1'' ''pw05''))
          = Inr payload" for payload
  proof -
    from that have "payload = \<lparr>p_ciphertext = map of_char ''pw05'', p_nonce = map of_char ''n'',
                              p_salt = map of_char ''s'', p_version = 1\<rparr>"
      by (simp add: ex_encryptedShare_def test_deserialize)
    then show ?thesis
      by (simp add: decrypt_def deriveKey_def test_primitives_def ENCRYPTION_VERSION_def)
  qed
  show ?thesis
    using addShare_spec [OF s, of "ex_encryptedShare 3 ''key-2'' ''pw05''" test_primitives "''pw''"]
      addShare_spec [OF s, of "ex_encryptedShare 1 ''key-1'' ''pw05''" test_primitives "''pw''"]
      addShare_spec [OF s, of "ex_encryptedShare 3 ''key-1'' ''pw05''" test_primitives "''xy''"] d
    by (simp add: ex_encryptedShare_def ex_state_def ex_wallet_def ex_keyShare_def)
qed

text \<open>
  Claim C6 as stated fails: adding the share with index 1, which is already collected,
  returns \<open>false\<close> and is no error.
\<close>

theorem addShare_already_collected:
  "k_index (collectedShares ex_wallet ! 0) = e_index (ex_encryptedShare 1 ''key-1'' ''pw05'')
   \<and> addShare test_primitives ex_wallet (ex_encryptedShare 1 ''key-1'' ''pw05'') ''pw''
       = (Inr False, ex_wallet)"
  by (simp add: addShare_def ex_wallet_def ex_state_def ex_encryptedShare_def ex_keyShare_def)

section \<open>Signing and the collected shares\<close>



















section \<open>The verification code of an invite\<close>

lemma map_of_map_delete: "map_of (map_delete rs k) = (map_of rs)(k := None)"
  by (induction rs) (auto simp: map_delete_def fun_eq_iff)

lemma decimal_digit_char: "(d::nat) < 10 \<Longrightarrow> is_decimal_digit (char_of (48 + d))"
  by (simp add: is_decimal_digit_def)

lemma nat_to_dec_digits: "\<forall>c \<in> set (nat_to_dec n). is_decimal_digit c"
proof (induction n rule: nat_to_dec.induct)
  case (1 n)
  show ?case
  proof (cases "n < 10")
    case True
    then show ?thesis
      by (subst nat_to_dec.simps) (simp add: decimal_digit_char)
  next
    case False
    have "is_decimal_digit (char_of (48 + n mod 10))"
      by (rule decimal_digit_char) simp
    with 1 False show ?thesis
      by (subst nat_to_dec.simps) simp
  qed
qed

lemma nat_to_dec_length: "n < 10 ^ k \<Longrightarrow> 0 < k \<Longrightarrow> length (nat_to_dec n) \<le> k"
proof (induction k arbitrary: n)
  case 0
  then show ?case by simp
next
  case (Suc k)
  show ?case
  proof (cases "n < 10")
    case True
    then show ?thesis
      by (subst nat_to_dec.simps) simp
  next
    case False
    with Suc.prems have k: "0 < k"
      by (cases k) auto
    from Suc.prems have "n div 10 < 10 ^ k"
      by (simp add: less_mult_imp_div_less mult.commute)
    from Suc.IH [OF this k] False show ?thesis
      by (subst nat_to_dec.simps) simp
  qed
qed

lemma generateVerificationCode_six_digits:
  "length (generateVerificationCode b0 b1 b2 b3) = 6
   \<and> (\<forall>c \<in> set (generateVerificationCode b0 b1 b2 b3). is_decimal_digit c)"
proof -
  define n where "n = nat (\<bar>sint (push_bit 24 (ucast b0) OR push_bit 16 (ucast b1)
                            OR push_bit 8 (ucast b2) OR ucast b3 :: 32 word)\<bar> mod 1000000)"
  have "n < 10 ^ 6"
    unfolding n_def by simp
  then have "length (nat_to_dec n) \<le> 6"
    by (rule nat_to_dec_length) simp
  moreover have "is_decimal_digit CHR ''0''"
    by (simp add: is_decimal_digit_def)
  ultimately show ?thesis
    using nat_to_dec_digits [of n]
    by (auto simp: generateVerificationCode_def Let_def padStart_def n_def [symmetric])
qed

text \<open>
  Claim C7, as amended. The verification code of \<open>createInvite\<close> has six decimal
  digits, and the guardian record gets as \<open>verificationHash\<close> the hexadecimal SHA-256
  hash (not Keccak-256) of the UTF-8 bytes of that code; the invite with the code is
  stored. \<open>processResponse\<close>, for a stored invite that has not expired and an existing
  guardian, hashes the received code in the same way, fails with BadCode and changes
  nothing when the hashes differ, and otherwise sets the guardian to accepted with
  \<open>acceptedAt\<close>, or to declined, and deletes the invite.
\<close>

theorem invite_challenge:
  "length (generateVerificationCode b0 b1 b2 b3) = 6
   \<and> (\<forall>c \<in> set (generateVerificationCode b0 b1 b2 b3). is_decimal_digit c)
   \<and> (map_of (guardians m) (ci_guardianId params) = Some g \<longrightarrow>
        (\<exists>invite m'. createInvite P clk b0 b1 b2 b3 idBytes m params = (Inr invite, m')
           \<and> i_verificationCode invite = generateVerificationCode b0 b1 b2 b3
           \<and> map_of (guardians m') (ci_guardianId params)
               = Some (g\<lparr>g_verificationHash :=
                           Some (bytesToHex (sha256 P (utf8_encode P (i_verificationCode invite))))\<rparr>)
           \<and> map_of (pendingInvites m') (i_id invite) = Some invite))
   \<and> (map_of (pendingInvites m) (rsp_inviteId response) = Some iv
        \<and> clk 0 \<le> i_expiresAt iv
        \<and> map_of (guardians m) (rsp_guardianId response) = Some g \<longrightarrow>
        (if g_verificationHash g
              \<noteq> Some (bytesToHex (sha256 P (utf8_encode P (rsp_verificationCode response))))
         then processResponse P clk m response = (Inl BadCode, m)
         else (\<exists>g' m'. processResponse P clk m response = (Inr (rsp_accepted response), m')
                 \<and> map_of (guardians m') (rsp_guardianId response) = Some g'
                 \<and> (if rsp_accepted response
                     then g_status g' = GuardianAccepted \<and> g_acceptedAt g' = Some (clk 1)
                     else g_status g' = GuardianDeclined \<and> g_acceptedAt g' = g_acceptedAt g)
                 \<and> g_verificationHash g' = g_verificationHash g
                 \<and> map_of (pendingInvites m') (i_id iv) = None)))"
proof -
  have h: "hashVerificationCode P code = bytesToHex (sha256 P (utf8_encode P code))" for code
    by (simp add: hashVerificationCode_def bytesToHex_def)
  have create: "\<exists>invite m'. createInvite P clk b0 b1 b2 b3 idBytes m params = (Inr invite, m')
           \<and> i_verificationCode invite = generateVerificationCode b0 b1 b2 b3
           \<and> map_of (guardians m') (ci_guardianId params)
               = Some (g\<lparr>g_verificationHash :=
                           Some (bytesToHex (sha256 P (utf8_encode P (i_verificationCode invite))))\<rparr>)
           \<and> map_of (pendingInvites m') (i_id invite) = Some invite"
    if "map_of (guardians m) (ci_guardianId params) = Some g"
    using that by (simp add: createInvite_def Let_def map_of_map_set h)
  have bad: "processResponse P clk m response = (Inl BadCode, m)"
    if "map_of (pendingInvites m) (rsp_inviteId response) = Some iv"
      and "clk 0 \<le> i_expiresAt iv"
      and "map_of (guardians m) (rsp_guardianId response) = Some g"
      and "g_verificationHash g
             \<noteq> Some (bytesToHex (sha256 P (utf8_encode P (rsp_verificationCode response))))"
    using that by (auto simp: processResponse_def Let_def h)
  have good: "\<exists>g' m'. processResponse P clk m response = (Inr (rsp_accepted response), m')
                 \<and> map_of (guardians m') (rsp_guardianId response) = Some g'
                 \<and> (if rsp_accepted response
                     then g_status g' = GuardianAccepted \<and> g_acceptedAt g' = Some (clk 1)
                     else g_status g' = GuardianDeclined \<and> g_acceptedAt g' = g_acceptedAt g)
                 \<and> g_verificationHash g' = g_verificationHash g
                 \<and> map_of (pendingInvites m') (i_id iv) = None"
    if "map_of (pendingInvites m) (rsp_inviteId response) = Some iv"
      and "clk 0 \<le> i_expiresAt iv"
      and "map_of (guardians m) (rsp_guardianId response) = Some g"
      and "g_verificationHash g
             = Some (bytesToHex (sha256 P (utf8_encode P (rsp_verificationCode response))))"
    using that
    by (simp add: processResponse_def Let_def h map_of_map_set map_of_map_delete)
  from generateVerificationCode_six_digits [of b0 b1 b2 b3] create bad good
  show ?thesis
    by presburger
qed


lemmas nat_to_hex_numeral = nat_to_hex.simps [of "numeral k"] nat_to_hex.simps [of 0]
  nat_to_hex.simps [of 1] nat_to_hex.simps [of "Suc 0"] for k

lemmas nat_to_dec_numeral = nat_to_dec.simps [of "numeral k"] nat_to_dec.simps [of 0]
  nat_to_dec.simps [of 1] nat_to_dec.simps [of "Suc 0"] for k

lemma replicate_numeral_Cons: "replicate (numeral k) x = x # replicate (pred_numeral k) x"
  by (simp add: numeral_eq_Suc)

lemmas eval_chars = char_of_def bit_0 hex_char_def padStart_def toString16_def
  replicate_numeral_Cons

lemma ex_code: "generateVerificationCode 0 0 0 42 = ''000042''"
  by (simp add: generateVerificationCode_def nat_to_dec_numeral eval_chars)

lemma ex_hash:
  "hashVerificationCode test_primitives ''000042'' = ''303030303432''"
  "hashVerificationCode test_primitives ''999999'' = ''393939393939''"
  by (simp_all add: hashVerificationCode_def test_primitives_def nat_to_hex_numeral eval_chars)

lemma ex_keccak_hex: "bytesToHex (keccak_256 test_primitives bs) = replicate 64 CHR ''0''"
proof -
  have "concat (replicate n ''00'') = replicate (2 * n) CHR ''0''" for n
    by (induction n) simp_all
  then show ?thesis
    by (simp add: bytesToHex_def test_primitives_def nat_to_hex_numeral eval_chars map_replicate_const)
qed


lemma ex_hash_eq:
  "hashVerificationCode test_primitives code
     = bytesToHex (sha256 test_primitives (utf8_encode test_primitives code))"
  by (simp add: hashVerificationCode_def bytesToHex_def)

theorem invite_challenge_witness:
  "length (generateVerificationCode 0 0 0 42) = 6
   \<and> map_option g_verificationHash
        (map_of (guardians (snd (createInvite test_primitives (\<lambda>_. 1000) 0 0 0 42 [1, 2]
                                   ex_manager ex_invite_params))) ''g1'')
       = Some (Some (bytesToHex (sha256 test_primitives
                       (utf8_encode test_primitives (generateVerificationCode 0 0 0 42)))))
   \<and> processResponse test_primitives (\<lambda>_. 2000) ex_manager (ex_response True ''999999'')
       = (Inl BadCode, ex_manager)
   \<and> fst (processResponse test_primitives (\<lambda>_. 2000) ex_manager (ex_response True ''000042''))
       = Inr True
   \<and> map_option g_status
        (map_of (guardians (snd (processResponse test_primitives (\<lambda>_. 2000) ex_manager
                                   (ex_response True ''000042'')))) ''g1'')
       = Some GuardianAccepted
   \<and> map_of (pendingInvites (snd (processResponse test_primitives (\<lambda>_. 2000) ex_manager
                                     (ex_response True ''000042'')))) ''i1''
       = None"
proof -
  have g: "map_of (guardians ex_manager) (ci_guardianId ex_invite_params) = Some ex_guardian"
    by (simp add: ex_manager_def ex_invite_params_def)
  have i: "map_of (pendingInvites ex_manager) (rsp_inviteId (ex_response a c)) = Some ex_invite
           \<and> (\<lambda>_. 2000) (0::nat) \<le> i_expiresAt ex_invite
           \<and> map_of (guardians ex_manager) (rsp_guardianId (ex_response a c)) = Some ex_guardian"
    for a c
    by (simp add: ex_manager_def ex_response_def ex_invite_def)
  have ok: "g_verificationHash ex_guardian
              = Some (bytesToHex (sha256 test_primitives (utf8_encode test_primitives
                       (rsp_verificationCode (ex_response True ''000042'')))))"
    by (simp add: ex_guardian_def ex_response_def ex_hash_eq)
  have bad: "g_verificationHash ex_guardian
              \<noteq> Some (bytesToHex (sha256 test_primitives (utf8_encode test_primitives
                       (rsp_verificationCode (ex_response True ''999999'')))))"
    by (simp add: ex_guardian_def ex_response_def ex_hash_eq [symmetric] ex_hash)
  have id: "i_id ex_invite = ''i1''" "rsp_guardianId (ex_response a c) = ''g1''"
    "ci_guardianId ex_invite_params = ''g1''" "rsp_accepted (ex_response a c) = a" for a c
    by (simp_all add: ex_invite_def ex_response_def ex_invite_params_def)
  show ?thesis
    using invite_challenge [of 0 0 0 42 ex_manager ex_invite_params ex_guardian test_primitives
            "\<lambda>_. 1000" "[1, 2]" "ex_response True ''999999''" ex_invite, THEN conjunct1]
      invite_challenge [of 0 0 0 42 ex_manager ex_invite_params ex_guardian test_primitives
            "\<lambda>_. 1000" "[1, 2]" "ex_response True ''999999''" ex_invite,
            THEN conjunct2, THEN conjunct2, THEN conjunct1, rule_format, OF g]
      invite_challenge [of 0 0 0 42 ex_manager ex_invite_params ex_guardian test_primitives
            "\<lambda>_. 2000" "[1, 2]" "ex_response True ''999999''" ex_invite,
            THEN conjunct2, THEN conjunct2, THEN conjunct2, rule_format, OF i]
      invite_challenge [of 0 0 0 42 ex_manager ex_invite_params ex_guardian test_primitives
            "\<lambda>_. 2000" "[1, 2]" "ex_response True ''000042''" ex_invite,
            THEN conjunct2, THEN conjunct2, THEN conjunct2, rule_format, OF i]
      ok bad
    by (auto simp: id)
qed

text \<open>
  Claim C7 as stated fails on the hash function: \<open>hashVerificationCode\<close> calls
  \<open>sha256\<close>. With primitives whose \<open>keccak_256\<close> differs from \<open>sha256\<close> on the bytes of
  the code, the stored hash is the one of \<open>sha256\<close> and not the one of \<open>keccak_256\<close>.
\<close>

theorem verificationHash_is_not_keccak:
  "map_option g_verificationHash
     (map_of (guardians (snd (createInvite test_primitives (\<lambda>_. 1000) 0 0 0 42 [1, 2]
                                ex_manager ex_invite_params))) ''g1'')
     \<noteq> Some (Some (bytesToHex (keccak_256 test_primitives
                      (utf8_encode test_primitives (generateVerificationCode 0 0 0 42)))))
   \<and> map_option g_verificationHash
     (map_of (guardians (snd (createInvite test_primitives (\<lambda>_. 1000) 0 0 0 42 [1, 2]
                                ex_manager ex_invite_params))) ''g1'')
     = Some (Some (bytesToHex (sha256 test_primitives
                      (utf8_encode test_primitives (generateVerificationCode 0 0 0 42)))))"
proof -
  have stored: "map_option g_verificationHash
     (map_of (guardians (snd (createInvite test_primitives (\<lambda>_. 1000) 0 0 0 42 [1, 2]
                                ex_manager ex_invite_params))) ''g1'')
     = Some (Some ''303030303432'')"
    by (simp add: createInvite_def ex_manager_def ex_invite_params_def Let_def ex_code ex_hash)
  have sha: "bytesToHex (sha256 test_primitives
               (utf8_encode test_primitives (generateVerificationCode 0 0 0 42)))
             = ''303030303432''"
    unfolding ex_code ex_hash_eq [symmetric] by (rule ex_hash)
  have "''303030303432'' \<noteq> replicate 64 CHR ''0''"
    by (simp add: replicate_numeral_Cons)
  then show ?thesis
    unfolding stored sha ex_keccak_hex by simp
qed


end
